theory Spec2Isabelle
  imports Complex_Main "HOL-Library.Stream"
begin

section \<open>Turbo Rally: the data model of \<^verbatim>\<open>turbo_rally.py\<close>\<close>

text \<open>
  Python's \<^verbatim>\<open>float\<close> is read as an exact real number: rounding, overflow to
  infinity, underflow to zero and NaN of IEEE doubles are outside this development. Where
  the program's quotient underflows to 0.0 or overflows to \<^verbatim>\<open>inf\<close>, the real number here is
  still positive and finite, so no statement below is about the sign or the finiteness of a
  lap time at the ends of the double range. Python's \<^verbatim>\<open>int\<close> is \<^typ>\<open>int\<close>, \<^verbatim>\<open>str\<close> is
  \<^typ>\<open>string\<close>, and the leaderboard dictionary is a map from names to totals.
\<close>

subsection \<open>Vehicle\<close>

record vehicle =
  name :: string
  speed :: real
  handling :: real
  acceleration :: real

text \<open>\<^verbatim>\<open>Vehicle.performance_modifier\<close>: \<^verbatim>\<open>(self.handling + self.acceleration) / 2\<close>.\<close>

definition performance_modifier :: "vehicle \<Rightarrow> real" where
  "performance_modifier v = (handling v + acceleration v) / 2"

subsection \<open>Track\<close>

text \<open>
  A track has a \<open>name\<close> field too: from here on the vehicle's is written
  \<open>vehicle.name\<close>.
\<close>

record track =
  name :: string
  terrain :: string
  length_km :: real
  obstacles :: "string list"

text \<open>
  The class attribute \<^verbatim>\<open>TERRAIN_EFFECT\<close>, a dictionary literal, as the association list
  of its items in source order, and \<^verbatim>\<open>dict.get(key, default)\<close> over such a table.
\<close>

definition TERRAIN_EFFECT :: "(string \<times> real) list" where
  "TERRAIN_EFFECT = [(''mud'', 7 / 10), (''gravel'', 85 / 100), (''sand'', 8 / 10)]"

definition dict_get :: "(string \<times> real) list \<Rightarrow> string \<Rightarrow> real \<Rightarrow> real" where
  "dict_get d k dflt = (case map_of d k of None \<Rightarrow> dflt | Some x \<Rightarrow> x)"

definition terrain_modifier :: "track \<Rightarrow> real" where
  "terrain_modifier t = dict_get TERRAIN_EFFECT (terrain t) 1"

subsection \<open>Weather\<close>

record weather =
  condition :: string

definition WEATHER_EFFECT :: "(string \<times> real) list" where
  "WEATHER_EFFECT = [(''clear'', 1), (''rain'', 8 / 10), (''storm'', 7 / 10)]"

definition traction_modifier :: "weather \<Rightarrow> real" where
  "traction_modifier w = dict_get WEATHER_EFFECT (condition w) 1"

subsection \<open>The random source and the console\<close>

text \<open>
  \<^verbatim>\<open>random.uniform(0.5, 1.5)\<close> reads the process-wide generator. The generator is the
  stream of the values its successive calls return; a call takes the head and leaves the
  tail. Nothing below depends on the values lying between 0.5 and 1.5: every statement
  holds for whatever the generator returns.
  \<^verbatim>\<open>print\<close> appends a line to the console; a line keeps the numbers printed, not their
  two-decimal rendering.
\<close>

datatype line = LapLine int real | TotalLine real

record world =
  rng :: "real stream"
  console :: "line list"

definition uniform_draw :: "world \<Rightarrow> real \<times> world" where
  "uniform_draw w = (shd (rng w), w\<lparr>rng := stl (rng w)\<rparr>)"

definition print_line :: "line \<Rightarrow> world \<Rightarrow> world" where
  "print_line l w = w\<lparr>console := console w @ [l]\<rparr>"

subsection \<open>Errors\<close>

text \<open>The only operation of the module that can raise is the float division.\<close>

datatype error = ZeroDivisionError

definition truediv :: "real \<Rightarrow> real \<Rightarrow> error + real" where
  "truediv a b = (if b = 0 then Inl ZeroDivisionError else Inr (a / b))"

subsection \<open>Race\<close>

record race =
  track :: track
  weather :: weather
  laps :: int
  leaderboard :: "string \<rightharpoonup> real"

text \<open>\<^verbatim>\<open>Race.__init__\<close>: the leaderboard starts as the empty dictionary.\<close>

definition Race :: "track \<Rightarrow> weather \<Rightarrow> int \<Rightarrow> race" where
  "Race t we n = \<lparr>track = t, weather = we, laps = n, leaderboard = Map.empty\<rparr>"

text \<open>
  \<^verbatim>\<open>Race._lap_time\<close> (the leading underscore is not a legal start of a name here).
  The result is the lap time in minutes and the world after the one call of
  \<^verbatim>\<open>random.uniform\<close>.
\<close>

definition lap_time :: "race \<Rightarrow> vehicle \<Rightarrow> world \<Rightarrow> error + (real \<times> world)" where
  "lap_time r v w =
     (let base_speed = speed v * performance_modifier v;
          speed' = base_speed * terrain_modifier (track r) * traction_modifier (weather r);
          (u, w') = uniform_draw w;
          obstacle_penalty = real (length (obstacles (track r))) * u
      in case truediv (length_km (track r)) (max (speed' - obstacle_penalty) 1) of
           Inl e \<Rightarrow> Inl e
         | Inr time_hours \<Rightarrow> Inr (time_hours * 60, w'))"

text \<open>
  The loop of \<^verbatim>\<open>Race.run\<close> over \<^verbatim>\<open>range(1, self.laps + 1)\<close>, that is over the list
  \<open>[1..laps]\<close>, with the list \<^verbatim>\<open>times\<close> built so far (\<open>times'\<close>, as \<open>times\<close> is multiplication
  here).
\<close>

fun run_loop :: "race \<Rightarrow> vehicle \<Rightarrow> int list \<Rightarrow> real list \<Rightarrow> world \<Rightarrow> error + (real list \<times> world)" where
  "run_loop r v [] times' w = Inr (times', w)"
| "run_loop r v (lap # rest) times' w =
     (case lap_time r v w of
        Inl e \<Rightarrow> Inl e
      | Inr (t, w') \<Rightarrow> run_loop r v rest (times' @ [t]) (print_line (LapLine lap t) w'))"

text \<open>
  \<^verbatim>\<open>Race.run\<close>: the lap times, the race with its leaderboard written, and the world.
\<close>

definition run :: "race \<Rightarrow> vehicle \<Rightarrow> world \<Rightarrow> error + (real list \<times> race \<times> world)" where
  "run r v w =
     (case run_loop r v [1..laps r] [] w of
        Inl e \<Rightarrow> Inl e
      | Inr (times', w') \<Rightarrow>
          (let total_time = sum_list times';
               w'' = print_line (TotalLine total_time) w'
           in Inr (times', r\<lparr>leaderboard := (leaderboard r)(vehicle.name v \<mapsto> total_time)\<rparr>, w'')))"

subsection \<open>Sequences of calls\<close>

text \<open>
  A caller that calls \<^verbatim>\<open>run\<close> on one race for each vehicle of a list, in order. Its
  result keeps the history of the calls: the name raced and the lap times that call
  returned, oldest first.
\<close>

fun run_seq :: "race \<Rightarrow> vehicle list \<Rightarrow> world \<Rightarrow> error + ((string \<times> real list) list \<times> race \<times> world)" where
  "run_seq r [] w = Inr ([], r, w)"
| "run_seq r (v # vs) w =
     (case run r v w of
        Inl e \<Rightarrow> Inl e
      | Inr (ts, r', w') \<Rightarrow>
          (case run_seq r' vs w' of
             Inl e \<Rightarrow> Inl e
           | Inr (h, r'', w'') \<Rightarrow> Inr ((vehicle.name v, ts) # h, r'', w'')))"

text \<open>
  The total of the most recent call of a history for a name: a later entry of the history
  wins over an earlier one.
\<close>

fun latest_total :: "(string \<times> real list) list \<Rightarrow> string \<Rightarrow> real option" where
  "latest_total [] n = None"
| "latest_total ((m, ts) # h) n =
     (case latest_total h n of
        Some x \<Rightarrow> Some x
      | None \<Rightarrow> if m = n then Some (sum_list ts) else None)"

subsection \<open>Letter case\<close>

text \<open>
  Two strings differ only in letter case when they are different and agree once every
  ASCII capital is replaced by its small letter.
\<close>

definition ascii_lower :: "char \<Rightarrow> char" where
  "ascii_lower c =
     (case map_of (zip ''ABCDEFGHIJKLMNOPQRSTUVWXYZ'' ''abcdefghijklmnopqrstuvwxyz'') c of
        None \<Rightarrow> c
      | Some d \<Rightarrow> d)"

definition differs_only_in_case :: "string \<Rightarrow> string \<Rightarrow> bool" where
  "differs_only_in_case s k = (s \<noteq> k \<and> map ascii_lower s = map ascii_lower k)"

subsection \<open>The scenario of \<^verbatim>\<open>test_race.py\<close> and the default data\<close>

definition test_vehicle :: vehicle where
  "test_vehicle = \<lparr>vehicle.name = ''Test Car'', speed = 140, handling = 9 / 10, acceleration = 8 / 10\<rparr>"

definition test_track :: track where
  "test_track = \<lparr>name = ''Test Track'', terrain = ''gravel'', length_km = 1, obstacles = []\<rparr>"

definition test_weather :: weather where
  "test_weather = \<lparr>condition = ''clear''\<rparr>"

text \<open>The first entries of \<^verbatim>\<open>default_vehicles()\<close> and \<^verbatim>\<open>default_tracks()\<close>.\<close>

definition dust_rider :: vehicle where
  "dust_rider = \<lparr>vehicle.name = ''Dust Rider'', speed = 140, handling = 9 / 10, acceleration = 8 / 10\<rparr>"

definition forest_trail :: track where
  "forest_trail =
     \<lparr>name = ''Forest Trail'', terrain = ''mud'', length_km = 5,
      obstacles = [''log'', ''puddle'', ''rock'']\<rparr>"

text \<open>A generator that returns the same value at every call, and a console with nothing printed.\<close>

definition const_world :: "real \<Rightarrow> world" where
  "const_world u = \<lparr>rng = sconst u, console = []\<rparr>"

section \<open>Auxiliary facts\<close>

lemma terrain_modifier_cases:
  "terrain_modifier t =
     (if terrain t = ''mud'' then 7 / 10
      else if terrain t = ''gravel'' then 85 / 100
      else if terrain t = ''sand'' then 8 / 10
      else 1)"
  by (simp add: terrain_modifier_def dict_get_def TERRAIN_EFFECT_def)

lemma traction_modifier_cases:
  "traction_modifier we =
     (if condition we = ''clear'' then 1
      else if condition we = ''rain'' then 8 / 10
      else if condition we = ''storm'' then 7 / 10
      else 1)"
  by (simp add: traction_modifier_def dict_get_def WEATHER_EFFECT_def)

text \<open>The division of a lap never raises: its divisor is at least 1.\<close>

lemma lap_time_Inr:
  "lap_time r v w =
     Inr (60 * length_km (track r) /
            max (speed v * ((handling v + acceleration v) / 2) * terrain_modifier (track r)
                   * traction_modifier (weather r)
                 - real (length (obstacles (track r))) * shd (rng w)) 1,
          w\<lparr>rng := stl (rng w)\<rparr>)"
proof -
  have "max (speed v * performance_modifier v * terrain_modifier (track r)
               * traction_modifier (weather r)
             - real (length (obstacles (track r))) * shd (rng w)) 1 \<noteq> 0"
    by (simp add: max_def)
  then show ?thesis
    by (simp add: lap_time_def truediv_def uniform_draw_def performance_modifier_def Let_def)
qed

text \<open>The loop returns, with one lap time appended for each lap.\<close>

lemma run_loop_total:
  "\<exists>ts w'. run_loop r v ls acc w = Inr (acc @ ts, w') \<and> length ts = length ls"
proof (induction ls arbitrary: acc w)
  case Nil
  show ?case by simp
next
  case (Cons lap rest)
  obtain t w1 where lt: "lap_time r v w = Inr (t, w1)"
    using lap_time_Inr by blast
  from Cons.IH [of "acc @ [t]" "print_line (LapLine lap t) w1"]
  obtain ts w' where
    "run_loop r v rest (acc @ [t]) (print_line (LapLine lap t) w1) = Inr ((acc @ [t]) @ ts, w')"
    and "length ts = length rest" by blast
  then have "run_loop r v (lap # rest) acc w = Inr (acc @ (t # ts), w')
      \<and> length (t # ts) = length (lap # rest)"
    using lt by simp
  then show ?case by blast
qed

text \<open>Each lap takes one value from the generator.\<close>

lemma run_loop_rng:
  "run_loop r v ls acc w = Inr (ts, w') \<Longrightarrow> rng w' = sdrop (length ls) (rng w)"
proof (induction ls arbitrary: acc w)
  case Nil
  then show ?case by simp
next
  case (Cons lap rest)
  have step: "run_loop r v rest (acc @ [fst (projr (lap_time r v w))])
      (print_line (LapLine lap (fst (projr (lap_time r v w)))) (w\<lparr>rng := stl (rng w)\<rparr>))
      = Inr (ts, w')"
    using Cons.prems by (simp add: lap_time_Inr)
  from Cons.IH [OF step] show ?case by (simp add: print_line_def)
qed

text \<open>\<^verbatim>\<open>run\<close> returns, and writes the sum of the returned lap times under the vehicle's name.\<close>

lemma run_total:
  "\<exists>ts w'. run r v w =
      Inr (ts, r\<lparr>leaderboard := (leaderboard r)(vehicle.name v \<mapsto> sum_list ts)\<rparr>, w')
    \<and> length ts = nat (laps r)"
proof -
  obtain ts w1 where "run_loop r v [1..laps r] [] w = Inr ([] @ ts, w1)"
    and "length ts = length [1..laps r]"
    using run_loop_total by blast
  then show ?thesis by (simp add: run_def Let_def)
qed

lemma run_seq_total:
  "\<exists>h r' w'. run_seq r vs w = Inr (h, r', w')
     \<and> map fst h = map vehicle.name vs
     \<and> (\<forall>n. leaderboard r' n =
            (case latest_total h n of Some x \<Rightarrow> Some x | None \<Rightarrow> leaderboard r n))"
proof (induction vs arbitrary: r w)
  case Nil
  show ?case by simp
next
  case (Cons v vs)
  obtain ts w1 where
    r1: "run r v w =
      Inr (ts, r\<lparr>leaderboard := (leaderboard r)(vehicle.name v \<mapsto> sum_list ts)\<rparr>, w1)"
    using run_total by blast
  let ?r1 = "r\<lparr>leaderboard := (leaderboard r)(vehicle.name v \<mapsto> sum_list ts)\<rparr>"
  from Cons.IH [of ?r1 w1] obtain h r' w' where
    seq: "run_seq ?r1 vs w1 = Inr (h, r', w')"
    and names: "map fst h = map vehicle.name vs"
    and lb: "\<And>n. leaderboard r' n =
      (case latest_total h n of Some x \<Rightarrow> Some x | None \<Rightarrow> leaderboard ?r1 n)"
    by blast
  have "run_seq r (v # vs) w = Inr ((vehicle.name v, ts) # h, r', w')"
    using r1 seq by simp
  moreover have "map fst ((vehicle.name v, ts) # h) = map vehicle.name (v # vs)"
    using names by simp
  moreover have "\<forall>n. leaderboard r' n =
      (case latest_total ((vehicle.name v, ts) # h) n of
         Some x \<Rightarrow> Some x
       | None \<Rightarrow> leaderboard r n)"
    by (simp add: lb split: option.splits)
  ultimately show ?case by blast
qed

lemma latest_total_dom: "dom (latest_total h) = fst ` set h"
proof (induction h)
  case Nil
  show ?case by (simp add: dom_def)
next
  case (Cons p h)
  obtain m ts where p: "p = (m, ts)" by (cases p)
  have "dom (latest_total ((m, ts) # h)) = insert m (dom (latest_total h))"
    by (auto simp: dom_def split: option.splits if_splits)
  also have "\<dots> = insert m (fst ` set h)"
    by (simp only: Cons.IH)
  also have "\<dots> = fst ` set ((m, ts) # h)"
    by simp
  finally show ?case unfolding p .
qed

text \<open>The lap of the test scenario, and its one-lap race.\<close>

lemma test_lap:
  "lap_time (Race test_track test_weather n) test_vehicle w
     = Inr (1200 / 2023, w\<lparr>rng := stl (rng w)\<rparr>)"
  by (simp add: lap_time_Inr Race_def test_track_def test_weather_def test_vehicle_def
      terrain_modifier_cases traction_modifier_cases)

lemma upto_1_1: "[1..1::int] = [1]"
  by (simp add: upto.simps)

lemma test_run:
  "run (Race test_track test_weather 1) test_vehicle w =
     Inr ([1200 / 2023],
          (Race test_track test_weather 1)\<lparr>leaderboard := [''Test Car'' \<mapsto> 1200 / 2023]\<rparr>,
          w\<lparr>rng := stl (rng w),
            console := console w @ [LapLine 1 (1200 / 2023), TotalLine (1200 / 2023)]\<rparr>)"
proof -
  have l: "laps (Race test_track test_weather 1) = 1" by (simp add: Race_def)
  have "run_loop (Race test_track test_weather 1) test_vehicle [1] [] w
      = Inr ([1200 / 2023], print_line (LapLine 1 (1200 / 2023)) (w\<lparr>rng := stl (rng w)\<rparr>))"
    by (simp add: test_lap)
  then show ?thesis
    by (simp add: run_def l upto_1_1 print_line_def Let_def Race_def test_vehicle_def)
qed

section \<open>The lap-time formula\<close>

text \<open>
  C1. For every vehicle, track, weather and value \<open>u\<close> that the generator returns, a lap-time
  computation returns \<open>60 * length_km / max (speed * ((handling + acceleration) / 2) *
  terrain_modifier * traction_modifier - count(obstacles) * u) 1\<close>. It takes exactly one value
  from the generator, whatever the number of obstacles, and prints nothing. The statement
  holds for every value of \<open>u\<close>, so for those in the range from 0.5 to 1.5.
\<close>

theorem lap_time_formula:
  "lap_time r v w =
     Inr (60 * length_km (track r) /
            max (speed v * ((handling v + acceleration v) / 2) * terrain_modifier (track r)
                   * traction_modifier (weather r)
                 - real (length (obstacles (track r))) * shd (rng w)) 1,
          w\<lparr>rng := stl (rng w)\<rparr>)"
  by (rule lap_time_Inr)

text \<open>
  C9. On a track with no obstacles the lap time does not depend on the generator: two
  computations in two worlds, whatever their generators return, give the same time.
\<close>

theorem lap_time_ignores_draw:
  assumes "obstacles (track r) = []"
  shows "\<exists>t. lap_time r v w1 = Inr (t, w1\<lparr>rng := stl (rng w1)\<rparr>)
            \<and> lap_time r v w2 = Inr (t, w2\<lparr>rng := stl (rng w2)\<rparr>)"
  using assms by (simp add: lap_time_Inr)

text \<open>
  The test track under a storm, with the generator returning 0.5 at every call and then
  1.5 at every call.
\<close>

theorem lap_time_ignores_draw_witness:
  "obstacles (track (Race test_track \<lparr>condition = ''storm''\<rparr> 3)) = []
   \<and> lap_time (Race test_track \<lparr>condition = ''storm''\<rparr> 3) dust_rider (const_world (1 / 2))
       = Inr (12000 / 14161, const_world (1 / 2))
   \<and> lap_time (Race test_track \<lparr>condition = ''storm''\<rparr> 3) dust_rider (const_world (3 / 2))
       = Inr (12000 / 14161, const_world (3 / 2))"
  using lap_time_ignores_draw [of "Race test_track \<lparr>condition = ''storm''\<rparr> 3" dust_rider
      "const_world (1 / 2)" "const_world (3 / 2)"]
  by (simp add: Race_def test_track_def lap_time_Inr dust_rider_def const_world_def
      terrain_modifier_cases traction_modifier_cases)

text \<open>
  C8. For the vehicle and the track of the test scenario, the lap time under
  \<^verbatim>\<open>Weather("storm")\<close> is strictly larger than the lap time under \<^verbatim>\<open>Weather("clear")\<close>,
  whatever the generators return.
\<close>

theorem storm_slower_than_clear:
  "\<exists>t_storm t_clear w1' w2'.
      lap_time (Race test_track \<lparr>condition = ''storm''\<rparr> n) test_vehicle w1 = Inr (t_storm, w1')
    \<and> lap_time (Race test_track \<lparr>condition = ''clear''\<rparr> m) test_vehicle w2 = Inr (t_clear, w2')
    \<and> t_clear < t_storm"
proof -
  have "lap_time (Race test_track \<lparr>condition = ''storm''\<rparr> n) test_vehicle w1
      = Inr (12000 / 14161, w1\<lparr>rng := stl (rng w1)\<rparr>)"
    by (simp add: lap_time_Inr Race_def test_track_def test_vehicle_def
        terrain_modifier_cases traction_modifier_cases)
  moreover have "lap_time (Race test_track \<lparr>condition = ''clear''\<rparr> m) test_vehicle w2
      = Inr (1200 / 2023, w2\<lparr>rng := stl (rng w2)\<rparr>)"
    by (simp add: lap_time_Inr Race_def test_track_def test_vehicle_def
        terrain_modifier_cases traction_modifier_cases)
  moreover have "(1200 / 2023 :: real) < 12000 / 14161"
    by simp
  ultimately show ?thesis by blast
qed

section \<open>The test scenario\<close>

text \<open>
  C2, as amended. For \<^verbatim>\<open>Vehicle("Test Car", 140, 0.9, 0.8)\<close>,
  \<^verbatim>\<open>Track("Test Track", "gravel", 1.0, [])\<close>, \<^verbatim>\<open>Weather("clear")\<close> and one lap,
  whatever the generator returns, \<^verbatim>\<open>run\<close> returns the single lap time
  \<open>(1.0 / (140 * 0.85 * 0.85 * 1.0)) * 60\<close> minutes, and the leaderboard entry of
  \<^verbatim>\<open>"Test Car"\<close> is this value. The value is 1200/2023, approximately 0.593 minutes.
\<close>

theorem test_scenario_lap_time:
  "\<exists>t r' w'. run (Race test_track test_weather 1) test_vehicle w = Inr ([t], r', w')
     \<and> t = (1 / (140 * (85 / 100) * (85 / 100) * 1)) * 60
     \<and> leaderboard r' ''Test Car'' = Some t
     \<and> \<bar>t - 593 / 1000\<bar> < 5 / 10000"
proof -
  have "(1200 / 2023 :: real) = (1 / (140 * (85 / 100) * (85 / 100) * 1)) * 60"
    by simp
  moreover have "\<bar>1200 / 2023 - 593 / 1000 :: real\<bar> < 5 / 10000"
    by simp
  ultimately show ?thesis
    unfolding test_run by (intro exI [of _ "1200 / 2023"]) simp
qed

text \<open>
  The lap time of the scenario is not approximately 0.499 minutes: it is more than 0.094
  minutes away from it.
\<close>

theorem test_scenario_not_0499:
  "(case lap_time (Race test_track test_weather 1) test_vehicle (const_world 1) of
      Inl e \<Rightarrow> False
    | Inr (t, w') \<Rightarrow> 94 / 1000 < \<bar>t - 499 / 1000\<bar>)"
  by (simp add: test_lap)

section \<open>The laps of a race\<close>

text \<open>
  C3, as amended. On a race with \<open>laps = 0\<close>, \<^verbatim>\<open>run(vehicle)\<close> returns the empty sequence,
  takes no value from the generator, and writes the total 0 under the vehicle's name in the
  leaderboard; every other entry of the leaderboard is unchanged.
\<close>

theorem run_zero_laps:
  "laps r = 0 \<Longrightarrow>
   run r v w = Inr ([], r\<lparr>leaderboard := (leaderboard r)(vehicle.name v \<mapsto> 0)\<rparr>,
                    w\<lparr>console := console w @ [TotalLine 0]\<rparr>)"
  by (simp add: run_def Let_def print_line_def)

theorem run_zero_laps_witness:
  "laps (Race forest_trail test_weather 0) = 0 \<and>
   run (Race forest_trail test_weather 0) dust_rider (const_world 1) =
     Inr ([], \<lparr>track = forest_trail, weather = test_weather, laps = 0,
                leaderboard = [''Dust Rider'' \<mapsto> 0]\<rparr>,
          \<lparr>rng = sconst 1, console = [TotalLine 0]\<rparr>)"
  using run_zero_laps [of "Race forest_trail test_weather 0" dust_rider "const_world 1"]
  by (simp add: Race_def dust_rider_def const_world_def)

text \<open>
  With \<open>laps = 0\<close> the leaderboard does not stay as it was: a fresh race has no entry for
  \<^verbatim>\<open>"Test Car"\<close>, and after \<^verbatim>\<open>run\<close> it has the entry 0.
\<close>

theorem run_zero_laps_writes_leaderboard:
  "(case run (Race test_track test_weather 0) test_vehicle (const_world 1) of
      Inl e \<Rightarrow> False
    | Inr (ts, r', w') \<Rightarrow>
        ts = [] \<and> leaderboard (Race test_track test_weather 0) ''Test Car'' = None
        \<and> leaderboard r' ''Test Car'' = Some 0)"
  by (simp add: run_def Race_def test_vehicle_def Let_def)

section \<open>The leaderboard\<close>

text \<open>
  C5. On a race as constructed, after any sequence of \<^verbatim>\<open>run\<close> calls the keys of the
  leaderboard are exactly the names of the vehicles that \<^verbatim>\<open>run\<close> was called for, and each
  key maps to the sum of the lap times of the most recent call for that name. In particular,
  on any race, after two calls of \<^verbatim>\<open>run(vehicle)\<close> the entry of the vehicle's name is the
  total of the second call.
\<close>

theorem leaderboard_latest_totals:
  "(\<exists>h r' w'. run_seq (Race t we n) vs w = Inr (h, r', w')
      \<and> map fst h = map vehicle.name vs
      \<and> dom (leaderboard r') = set (map vehicle.name vs)
      \<and> leaderboard r' = latest_total h)
   \<and> (\<exists>ts1 r1 w1 ts2 r2 w2. run r v w = Inr (ts1, r1, w1) \<and> run r1 v w1 = Inr (ts2, r2, w2)
        \<and> leaderboard r2 (vehicle.name v) = Some (sum_list ts2))"
proof
  obtain h r' w' where seq: "run_seq (Race t we n) vs w = Inr (h, r', w')"
    and names: "map fst h = map vehicle.name vs"
    and lb: "\<forall>k. leaderboard r' k =
        (case latest_total h k of Some x \<Rightarrow> Some x | None \<Rightarrow> leaderboard (Race t we n) k)"
    using run_seq_total by blast
  have eq: "leaderboard r' = latest_total h"
  proof
    fix k
    show "leaderboard r' k = latest_total h k"
      using lb by (simp add: Race_def split: option.splits)
  qed
  have "fst ` set h = set (map fst h)" by simp
  then have "dom (leaderboard r') = set (map vehicle.name vs)"
    unfolding eq latest_total_dom names .
  with seq names eq
  show "\<exists>h r' w'. run_seq (Race t we n) vs w = Inr (h, r', w')
      \<and> map fst h = map vehicle.name vs
      \<and> dom (leaderboard r') = set (map vehicle.name vs)
      \<and> leaderboard r' = latest_total h"
    by blast
next
  obtain ts1 w1 where
    a: "run r v w =
      Inr (ts1, r\<lparr>leaderboard := (leaderboard r)(vehicle.name v \<mapsto> sum_list ts1)\<rparr>, w1)"
    using run_total by blast
  let ?r1 = "r\<lparr>leaderboard := (leaderboard r)(vehicle.name v \<mapsto> sum_list ts1)\<rparr>"
  obtain ts2 w2 where
    b: "run ?r1 v w1 =
      Inr (ts2, ?r1\<lparr>leaderboard := (leaderboard ?r1)(vehicle.name v \<mapsto> sum_list ts2)\<rparr>, w2)"
    using run_total by blast
  have "leaderboard (?r1\<lparr>leaderboard := (leaderboard ?r1)(vehicle.name v \<mapsto> sum_list ts2)\<rparr>)
      (vehicle.name v) = Some (sum_list ts2)"
    by simp
  with a b
  show "\<exists>ts1 r1 w1 ts2 r2 w2. run r v w = Inr (ts1, r1, w1) \<and> run r1 v w1 = Inr (ts2, r2, w2)
        \<and> leaderboard r2 (vehicle.name v) = Some (sum_list ts2)"
    by blast
qed

section \<open>The lookup tables\<close>

text \<open>
  C6. For every track, \<^verbatim>\<open>terrain_modifier()\<close> returns 0.7 when the terrain is
  \<^verbatim>\<open>"mud"\<close>, 0.85 when it is \<^verbatim>\<open>"gravel"\<close>, 0.8 when it is \<^verbatim>\<open>"sand"\<close>, and 1.0 for every
  other terrain string; it has no failing case.
\<close>

theorem terrain_modifier_table:
  "terrain_modifier t =
     (if terrain t = ''mud'' then 7 / 10
      else if terrain t = ''gravel'' then 85 / 100
      else if terrain t = ''sand'' then 8 / 10
      else 1)"
  by (rule terrain_modifier_cases)

text \<open>
  C7. For every weather, \<^verbatim>\<open>traction_modifier()\<close> returns 1.0 when the condition is
  \<^verbatim>\<open>"clear"\<close>, 0.8 when it is \<^verbatim>\<open>"rain"\<close>, 0.7 when it is \<^verbatim>\<open>"storm"\<close>, and 1.0 for every
  other condition string.
\<close>

theorem traction_modifier_table:
  "traction_modifier we =
     (if condition we = ''clear'' then 1
      else if condition we = ''rain'' then 8 / 10
      else if condition we = ''storm'' then 7 / 10
      else 1)"
  by (rule traction_modifier_cases)

text \<open>
  C10. The lookups are case-sensitive: a terrain that differs from a key of the terrain
  table only in letter case gets the neutral modifier 1.0, not the value of the table, and
  so does a condition that differs from a key of the weather table only in letter case.
\<close>

theorem lookups_case_sensitive:
  "(k \<in> fst ` set TERRAIN_EFFECT \<and> differs_only_in_case (terrain t) k
      \<longrightarrow> terrain_modifier t = 1)
   \<and> (k' \<in> fst ` set WEATHER_EFFECT \<and> differs_only_in_case (condition we) k'
        \<longrightarrow> traction_modifier we = 1)"
proof (intro conjI impI; elim conjE)
  assume k: "k \<in> fst ` set TERRAIN_EFFECT" and d: "differs_only_in_case (terrain t) k"
  from k have "k = ''mud'' \<or> k = ''gravel'' \<or> k = ''sand''"
    by (auto simp: TERRAIN_EFFECT_def)
  with d have "terrain t \<noteq> ''mud'' \<and> terrain t \<noteq> ''gravel'' \<and> terrain t \<noteq> ''sand''"
    by (auto simp: differs_only_in_case_def ascii_lower_def)
  then show "terrain_modifier t = 1"
    by (simp add: terrain_modifier_cases)
next
  assume k: "k' \<in> fst ` set WEATHER_EFFECT" and d: "differs_only_in_case (condition we) k'"
  from k have "k' = ''clear'' \<or> k' = ''rain'' \<or> k' = ''storm''"
    by (auto simp: WEATHER_EFFECT_def)
  with d have
    "condition we \<noteq> ''clear'' \<and> condition we \<noteq> ''rain'' \<and> condition we \<noteq> ''storm''"
    by (auto simp: differs_only_in_case_def ascii_lower_def)
  then show "traction_modifier we = 1"
    by (simp add: traction_modifier_cases)
qed

text \<open>The terrain \<^verbatim>\<open>"Mud"\<close> and the condition \<^verbatim>\<open>"Rain"\<close>.\<close>

theorem lookups_case_sensitive_witness:
  "''mud'' \<in> fst ` set TERRAIN_EFFECT \<and> differs_only_in_case ''Mud'' ''mud''
   \<and> terrain_modifier
        \<lparr>name = ''Forest Trail'', terrain = ''Mud'', length_km = 5, obstacles = []\<rparr> = 1
   \<and> ''rain'' \<in> fst ` set WEATHER_EFFECT \<and> differs_only_in_case ''Rain'' ''rain''
   \<and> traction_modifier \<lparr>condition = ''Rain''\<rparr> = 1"
  using lookups_case_sensitive [of "''mud''"
      "\<lparr>name = ''Forest Trail'', terrain = ''Mud'', length_km = 5, obstacles = []\<rparr>"
      "''rain''" "\<lparr>condition = ''Rain''\<rparr>"]
  by (simp add: TERRAIN_EFFECT_def WEATHER_EFFECT_def differs_only_in_case_def ascii_lower_def)

end
